theory Spec2Isabelle
  imports Main "HOL-Library.AList" "HOL-Library.Sublist"
begin

section \<open>Values, dictionaries and HTTP messages\<close>

text \<open>
  Python values as far as the client handles them: \<open>None\<close>, booleans, integers, strings,
  lists and dictionaries. A dictionary is an association list in insertion order whose
  keys are pairwise distinct; a string is the list of the bytes of its UTF-8 encoding.
\<close>

datatype pyval =
    PNone
  | PBool bool
  | PInt int
  | PStr string
  | PList "pyval list"
  | PDict "(string \<times> pyval) list"

type_synonym pydict = "(string \<times> pyval) list"

text \<open>
  \<open>d.update(other)\<close>: the items of \<open>other\<close> are stored into \<open>d\<close> one after the other; a
  key \<open>d\<close> has already keeps its place and gets the new value, a new key goes to the end.
\<close>

definition dict_update :: "pydict \<Rightarrow> pydict \<Rightarrow> pydict" where
  "dict_update d other = fold (\<lambda>(k, v) acc. AList.update k v acc) other d"

text \<open>\<open>d.get(k)\<close>, with \<open>None\<close> of HOL for a missing key.\<close>

definition dict_get :: "pydict \<Rightarrow> string \<Rightarrow> pyval option" where
  "dict_get d k = map_of d k"

definition dict_keys :: "pydict \<Rightarrow> string list" where
  "dict_keys d = map fst d"

section \<open>Request options\<close>

text \<open>
  \<open>XParserClient._build_options\<close>: the five defaults of the parse endpoint, updated with
  the caller's options when these are given and not empty (\<open>if options:\<close>).
\<close>

definition default_options :: pydict where
  "default_options =
     [(''response_format'', PStr ''layout_json''),
      (''include_bbox'', PBool True),
      (''id_marker'', PBool True),
      (''group_markers'', PBool True),
      (''use_xparser_description'', PBool True)]"

definition build_options :: "pydict option \<Rightarrow> pydict" where
  "build_options options =
     (case options of
        None \<Rightarrow> default_options
      | Some opts \<Rightarrow> if opts \<noteq> [] then dict_update default_options opts else default_options)"

text \<open>\<open>XParserClient._build_options_v2\<close>: the same over the two defaults of the chunk endpoint.\<close>

definition default_options_v2 :: pydict where
  "default_options_v2 =
     [(''use_ai_description'', PBool True),
      (''table_format'', PStr ''markdown'')]"

definition build_options_v2 :: "pydict option \<Rightarrow> pydict" where
  "build_options_v2 options =
     (case options of
        None \<Rightarrow> default_options_v2
      | Some opts \<Rightarrow> if opts \<noteq> [] then dict_update default_options_v2 opts else default_options_v2)"

section \<open>HTTP exchange\<close>

text \<open>
  What the client hands to httpx and what comes back. A request has its method, its URL,
  the value sent as JSON body (\<open>json=\<close>) and the timeout in seconds. A response has its
  status code, its body text and the value \<open>response.json()\<close> decodes from the body
  (\<open>None\<close> of HOL when the body is not JSON, where \<open>response.json()\<close> raises). An exchange
  ends with a response or with a failure of the transport (refused connection, timeout,
  DNS), which httpx raises as an exception.
\<close>

datatype http_method = GET | POST

record http_request =
  http_method :: http_method
  url :: string
  json_body :: "pyval option"
  request_timeout :: int

record http_response =
  status_code :: int
  response_text :: string
  response_json :: "pyval option"

datatype http_outcome = Responded http_response | TransportFailure string

text \<open>
  The exceptions the client raises or lets through, all of them subclasses of
  \<open>Exception\<close>. The three built-in ones carry their message; \<open>HTTPStatusError\<close> carries the
  response (\<open>e.response\<close>), \<open>TransportError\<close> the transport's message.
\<close>

datatype error =
    ValueError string
  | FileNotFoundError string
  | RuntimeError string
  | HTTPStatusError http_response
  | TransportError string
  | JSONDecodeError
  | AttributeError

text \<open>\<open>response.raise_for_status()\<close>: every status outside 200..299 raises.\<close>

definition raise_for_status :: "http_response \<Rightarrow> error + http_response" where
  "raise_for_status response =
     (if 200 \<le> status_code response \<and> status_code response \<le> 299 then Inr response
      else Inl (HTTPStatusError response))"

text \<open>
  The constant parts of the three messages (lines 63, 65 and 68), Korean for
  "wrong request: ", "file missing: " and "server error: ", as UTF-8 bytes.
\<close>

definition wrong_request_prefix :: string where
  "wrong_request_prefix =
     map char_of [236, 158, 152, 235, 170, 187, 235, 144, 156, 32,
                  236, 154, 148, 236, 178, 173, 58, 32 :: nat]"

definition file_missing_prefix :: string where
  "file_missing_prefix =
     map char_of [237, 140, 140, 236, 157, 188, 32, 236, 151, 134, 236, 157, 140, 58, 32 :: nat]"

definition server_error_prefix :: string where
  "server_error_prefix =
     map char_of [236, 132, 156, 235, 178, 132, 32, 236, 152, 164, 235, 165, 152, 58, 32 :: nat]"

section \<open>The client\<close>

text \<open>
  \<open>XParserClient\<close>: the three attributes \<open>__init__\<close> sets. Of the semaphore the record
  keeps its current value, the number of free units. \<open>asyncio.Semaphore\<close> refuses a
  negative initial value with a \<open>ValueError\<close>; an argument left out (\<open>None\<close> of HOL)
  takes the default of the signature.
\<close>

record XParserClient =
  base_url :: string
  timeout :: int
  semaphore :: nat

definition XParserClient_init :: "string \<Rightarrow> int option \<Rightarrow> int option \<Rightarrow> error + XParserClient" where
  "XParserClient_init base_url' timeout' max_concurrent =
     (let t = (case timeout' of None \<Rightarrow> 300 | Some t \<Rightarrow> t);
          k = (case max_concurrent of None \<Rightarrow> 10 | Some k \<Rightarrow> k)
      in if k < 0 then Inl (ValueError ''Semaphore initial value must be >= 0'')
         else Inr \<lparr>base_url = base_url', timeout = t, semaphore = nat k\<rparr>)"

subsection \<open>parse_document\<close>

text \<open>
  Lines 40 to 54: the request \<open>parse_document\<close> posts once it holds a unit of the
  semaphore. \<open>bucket_name\<close> is \<open>None\<close> of HOL when the caller leaves the argument out, which
  gives the default \<open>"aidoc"\<close>; a caller may pass any value, Python's \<open>None\<close> included.
\<close>

definition parse_document_request ::
  "XParserClient \<Rightarrow> string \<Rightarrow> pyval option \<Rightarrow> pydict option \<Rightarrow> http_request" where
  "parse_document_request self saved_filename bucket_name options =
     (let request_data =
            [(''saved_filename'', PStr saved_filename),
             (''bucket_name'', (case bucket_name of None \<Rightarrow> PStr ''aidoc'' | Some b \<Rightarrow> b)),
             (''options'', PDict (build_options options))]
      in \<lparr>http_method = POST,
          url = base_url self @ ''/api/v2/parse'',
          json_body = Some (PDict request_data),
          request_timeout = timeout self\<rparr>)"

text \<open>
  Lines 55 to 74: what \<open>parse_document\<close> returns or raises once the exchange has ended.
  The handler of \<open>HTTPStatusError\<close> replaces the exception for the statuses 400, 404 and
  500 and re-raises it for every other one; any other exception is logged and re-raised.
\<close>

definition parse_document_result :: "string \<Rightarrow> http_outcome \<Rightarrow> error + pyval" where
  "parse_document_result saved_filename outcome =
     (case outcome of
        TransportFailure msg \<Rightarrow> Inl (TransportError msg)
      | Responded response \<Rightarrow>
          (case raise_for_status response of
             Inl e \<Rightarrow>
               if status_code response = 400 then
                 Inl (ValueError (wrong_request_prefix @ response_text response))
               else if status_code response = 404 then
                 Inl (FileNotFoundError (file_missing_prefix @ saved_filename))
               else if status_code response = 500 then
                 Inl (RuntimeError (server_error_prefix @ response_text response))
               else Inl e
           | Inr r \<Rightarrow>
               (case response_json r of
                  None \<Rightarrow> Inl JSONDecodeError
                | Some result \<Rightarrow> Inr result)))"

subsection \<open>parse_document_chunk\<close>

text \<open>Lines 78 to 92 and 93 to 112: the same for the chunk endpoint and its options.\<close>

definition parse_document_chunk_request ::
  "XParserClient \<Rightarrow> string \<Rightarrow> pyval option \<Rightarrow> pydict option \<Rightarrow> http_request" where
  "parse_document_chunk_request self saved_filename bucket_name options =
     (let request_data =
            [(''saved_filename'', PStr saved_filename),
             (''bucket_name'', (case bucket_name of None \<Rightarrow> PStr ''aidoc'' | Some b \<Rightarrow> b)),
             (''options'', PDict (build_options_v2 options))]
      in \<lparr>http_method = POST,
          url = base_url self @ ''/api/v2/chunk'',
          json_body = Some (PDict request_data),
          request_timeout = timeout self\<rparr>)"

definition parse_document_chunk_result :: "string \<Rightarrow> http_outcome \<Rightarrow> error + pyval" where
  "parse_document_chunk_result saved_filename outcome =
     (case outcome of
        TransportFailure msg \<Rightarrow> Inl (TransportError msg)
      | Responded response \<Rightarrow>
          (case raise_for_status response of
             Inl e \<Rightarrow>
               if status_code response = 400 then
                 Inl (ValueError (wrong_request_prefix @ response_text response))
               else if status_code response = 404 then
                 Inl (FileNotFoundError (file_missing_prefix @ saved_filename))
               else if status_code response = 500 then
                 Inl (RuntimeError (server_error_prefix @ response_text response))
               else Inl e
           | Inr r \<Rightarrow>
               (case response_json r of
                  None \<Rightarrow> Inl JSONDecodeError
                | Some result \<Rightarrow> Inr result)))"

subsection \<open>_safe_parse_document\<close>

text \<open>
  Line 129: the wrapped call is \<open>self.parse_document(saved_filename, None, options)\<close>, so
  the bucket argument is given, and it is Python's \<open>None\<close>. Lines 130 to 132: every
  exception of the wrapped call is logged and turned into the return value \<open>None\<close>.
\<close>

definition safe_parse_document_request ::
  "XParserClient \<Rightarrow> string \<Rightarrow> pydict option \<Rightarrow> http_request" where
  "safe_parse_document_request self saved_filename options =
     parse_document_request self saved_filename (Some PNone) options"

definition safe_parse_document_result :: "string \<Rightarrow> http_outcome \<Rightarrow> error + pyval" where
  "safe_parse_document_result saved_filename outcome =
     (case parse_document_result saved_filename outcome of
        Inl e \<Rightarrow> Inr PNone
      | Inr result \<Rightarrow> Inr result)"

subsection \<open>check_health and get_server_info\<close>

text \<open>
  Both send a GET to \<open>/health\<close> with a timeout of ten seconds and hold no unit of the
  semaphore. Inside the \<open>try\<close> of \<open>check_health\<close> the transport may fail, \<open>response.json()\<close>
  may fail on a body that is not JSON, and \<open>health_data.get\<close> exists on a dictionary
  only; the handler turns each of these into \<open>False\<close>.
\<close>

definition health_request :: "XParserClient \<Rightarrow> http_request" where
  "health_request self =
     \<lparr>http_method = GET, url = base_url self @ ''/health'', json_body = None,
      request_timeout = 10\<rparr>"

definition check_health_try :: "http_outcome \<Rightarrow> error + bool" where
  "check_health_try outcome =
     (case outcome of
        TransportFailure msg \<Rightarrow> Inl (TransportError msg)
      | Responded response \<Rightarrow>
          if status_code response = 200 then
            (case response_json response of
               None \<Rightarrow> Inl JSONDecodeError
             | Some (PDict health_data) \<Rightarrow>
                 Inr (dict_get health_data ''status'' = Some (PStr ''healthy''))
             | Some _ \<Rightarrow> Inl AttributeError)
          else Inr False)"

definition check_health_result :: "http_outcome \<Rightarrow> error + bool" where
  "check_health_result outcome =
     (case check_health_try outcome of
        Inl e \<Rightarrow> Inr False
      | Inr b \<Rightarrow> Inr b)"

definition get_server_info_try :: "http_outcome \<Rightarrow> error + pyval" where
  "get_server_info_try outcome =
     (case outcome of
        TransportFailure msg \<Rightarrow> Inl (TransportError msg)
      | Responded response \<Rightarrow>
          (case raise_for_status response of
             Inl e \<Rightarrow> Inl e
           | Inr r \<Rightarrow>
               (case response_json r of
                  None \<Rightarrow> Inl JSONDecodeError
                | Some info \<Rightarrow> Inr info)))"

definition get_server_info_result :: "http_outcome \<Rightarrow> error + pyval" where
  "get_server_info_result outcome =
     (case get_server_info_try outcome of
        Inl e \<Rightarrow> Inr PNone
      | Inr info \<Rightarrow> Inr info)"

section \<open>Concurrent calls on one client\<close>

text \<open>
  The methods are coroutines: many calls on one client are under way at once and
  interleave at their \<open>await\<close>s. A call is one of the five request methods with its
  arguments; \<open>batch_parse_documents\<close> is a list of \<open>_safe_parse_document\<close> calls that it
  gathers.
\<close>

datatype call =
    ParseDocument string "pyval option" "pydict option"
  | ParseDocumentChunk string "pyval option" "pydict option"
  | SafeParseDocument string "pydict option"
  | CheckHealth
  | GetServerInfo

text \<open>The calls whose body is inside \<open>async with self.semaphore\<close>.\<close>

fun uses_semaphore :: "call \<Rightarrow> bool" where
  "uses_semaphore (ParseDocument saved_filename bucket_name options) = True"
| "uses_semaphore (ParseDocumentChunk saved_filename bucket_name options) = True"
| "uses_semaphore (SafeParseDocument saved_filename options) = True"
| "uses_semaphore CheckHealth = False"
| "uses_semaphore GetServerInfo = False"

fun call_request :: "XParserClient \<Rightarrow> call \<Rightarrow> http_request" where
  "call_request self (ParseDocument saved_filename bucket_name options) =
     parse_document_request self saved_filename bucket_name options"
| "call_request self (ParseDocumentChunk saved_filename bucket_name options) =
     parse_document_chunk_request self saved_filename bucket_name options"
| "call_request self (SafeParseDocument saved_filename options) =
     safe_parse_document_request self saved_filename options"
| "call_request self CheckHealth = health_request self"
| "call_request self GetServerInfo = health_request self"

fun call_result :: "call \<Rightarrow> http_outcome \<Rightarrow> error + pyval" where
  "call_result (ParseDocument saved_filename bucket_name options) outcome =
     parse_document_result saved_filename outcome"
| "call_result (ParseDocumentChunk saved_filename bucket_name options) outcome =
     parse_document_chunk_result saved_filename outcome"
| "call_result (SafeParseDocument saved_filename options) outcome =
     safe_parse_document_result saved_filename outcome"
| "call_result CheckHealth outcome = map_sum id PBool (check_health_result outcome)"
| "call_result GetServerInfo outcome = get_server_info_result outcome"

text \<open>
  A call is \<open>Created\<close> until it has passed \<open>async with self.semaphore\<close> (when it has one),
  \<open>Requested\<close> while its request is with the transport, and \<open>Finished\<close> when the exchange
  has ended and the method has returned or raised. The state is the client and the calls
  made on it so far, in the order they were made.
\<close>

datatype stage = Created | Requested http_request | Finished http_request http_outcome

record state =
  client :: XParserClient
  tasks :: "(call \<times> stage) list"

text \<open>
  The three things that happen. \<open>Start\<close>: a caller makes some calls at once. \<open>Send\<close>: a
  created call enters its body and sends its request; a call under the semaphore takes
  one unit first and cannot proceed while the value is 0. \<open>Complete\<close>: the exchange of a
  requested call ends, with any outcome, and the call leaves its body; leaving
  \<open>async with\<close> gives the unit back, whether the body returned or raised. An event that
  cannot happen in a state yields \<open>None\<close>.
\<close>

datatype event = Start "call list" | Send nat | Complete nat http_outcome

fun fire :: "event \<Rightarrow> state \<Rightarrow> state option" where
  "fire (Start calls) s = Some (s\<lparr>tasks := tasks s @ map (\<lambda>c. (c, Created)) calls\<rparr>)"
| "fire (Send i) s =
     (if i < length (tasks s) then
        (case tasks s ! i of
           (c, Created) \<Rightarrow>
             if uses_semaphore c then
               (if semaphore (client s) = 0 then None
                else Some \<lparr>client = (client s)\<lparr>semaphore := semaphore (client s) - 1\<rparr>,
                           tasks = (tasks s)[i := (c, Requested (call_request (client s) c))]\<rparr>)
             else Some (s\<lparr>tasks := (tasks s)[i := (c, Requested (call_request (client s) c))]\<rparr>)
         | (c, Requested request) \<Rightarrow> None
         | (c, Finished request outcome) \<Rightarrow> None)
      else None)"
| "fire (Complete i outcome) s =
     (if i < length (tasks s) then
        (case tasks s ! i of
           (c, Created) \<Rightarrow> None
         | (c, Requested request) \<Rightarrow>
             Some \<lparr>client = (if uses_semaphore c
                              then (client s)\<lparr>semaphore := semaphore (client s) + 1\<rparr>
                              else client s),
                   tasks = (tasks s)[i := (c, Finished request outcome)]\<rparr>
         | (c, Finished request outcome') \<Rightarrow> None)
      else None)"

fun run :: "event list \<Rightarrow> state \<Rightarrow> state option" where
  "run [] s = Some s"
| "run (e # es) s = (case fire e s of None \<Rightarrow> None | Some s' \<Rightarrow> run es s')"

text \<open>A client that has just been constructed, with no call made yet.\<close>

definition fresh :: "XParserClient \<Rightarrow> state" where
  "fresh self = \<lparr>client = self, tasks = []\<rparr>"

text \<open>A call holds a unit of the semaphore exactly while its request is in flight.\<close>

fun holds_unit :: "call \<times> stage \<Rightarrow> bool" where
  "holds_unit (c, Requested request) = uses_semaphore c"
| "holds_unit (c, Created) = False"
| "holds_unit (c, Finished request outcome) = False"

definition in_flight :: "state \<Rightarrow> nat" where
  "in_flight s = length (filter holds_unit (tasks s))"

text \<open>What a finished call has returned (\<open>Inr\<close>) or raised (\<open>Inl\<close>).\<close>

fun task_result :: "call \<times> stage \<Rightarrow> (error + pyval) option" where
  "task_result (c, Finished request outcome) = Some (call_result c outcome)"
| "task_result (c, Created) = None"
| "task_result (c, Requested request) = None"

subsection \<open>batch_parse_documents\<close>

text \<open>Lines 147 to 150: one \<open>_safe_parse_document\<close> call per file name, all with the same options.\<close>

definition batch_calls :: "string list \<Rightarrow> pydict option \<Rightarrow> call list" where
  "batch_calls saved_filenames options =
     map (\<lambda>saved_filename. SafeParseDocument saved_filename options) saved_filenames"

text \<open>
  Line 152, \<open>asyncio.gather(*tasks, return_exceptions=True)\<close>: there is a result only when
  every one of the calls has finished, and then it lists, in the order of the calls, what
  each has returned or the exception it has raised.
\<close>

fun gather :: "(call \<times> stage) list \<Rightarrow> (error + pyval) list option" where
  "gather [] = Some []"
| "gather (t # ts) =
     (case task_result t of
        None \<Rightarrow> None
      | Some r \<Rightarrow> (case gather ts of None \<Rightarrow> None | Some rs \<Rightarrow> Some (r # rs)))"

text \<open>Lines 155 to 164: the loop over the gathered results, with its two accumulators.\<close>

fun process_results :: "(error + pyval) list \<Rightarrow> pyval list \<times> nat \<Rightarrow> pyval list \<times> nat" where
  "process_results [] acc = acc"
| "process_results (Inl e # results) (processed_results, success_count) =
     process_results results (processed_results @ [PNone], success_count)"
| "process_results (Inr result # results) (processed_results, success_count) =
     process_results results (processed_results @ [result], success_count + 1)"

text \<open>
  What \<open>batch_parse_documents\<close> returns in state \<open>s\<close>, when its calls are the \<open>n\<close> tasks from
  position \<open>first\<close> on: nothing yet while \<open>gather\<close> waits.
\<close>

definition batch_parse_documents_result :: "state \<Rightarrow> nat \<Rightarrow> nat \<Rightarrow> pyval list option" where
  "batch_parse_documents_result s first n =
     (case gather (take n (drop first (tasks s))) of
        None \<Rightarrow> None
      | Some results \<Rightarrow> Some (fst (process_results results ([], 0))))"

text \<open>
  One way for some calls from position \<open>i\<close> on to run: one after the other, each sending
  its request and then completing with the outcome listed for it.
\<close>

fun one_by_one :: "nat \<Rightarrow> http_outcome list \<Rightarrow> event list" where
  "one_by_one i [] = []"
| "one_by_one i (outcome # outcomes) = Send i # Complete i outcome # one_by_one (Suc i) outcomes"

subsection \<open>What is observed of a state\<close>





text \<open>The options a request carries: the entry \<open>options\<close> of its JSON body.\<close>

definition request_options :: "http_request \<Rightarrow> pydict option" where
  "request_options request =
     (case json_body request of
        Some (PDict request_data) \<Rightarrow>
          (case dict_get request_data ''options'' of
             Some (PDict options) \<Rightarrow> Some options
           | _ \<Rightarrow> None)
      | _ \<Rightarrow> None)"

section \<open>Properties of the option builders\<close>

lemma map_of_fold_update:
  "distinct (map fst other) \<Longrightarrow>
   map_of (fold (\<lambda>(k, v) acc. AList.update k v acc) other d) = map_of d ++ map_of other"
proof (induction other arbitrary: d)
  case Nil
  then show ?case by simp
next
  case (Cons p ps)
  obtain k v where p: "p = (k, v)" by (cases p)
  from Cons.prems p have notin: "k \<notin> fst ` set ps" and dist: "distinct (map fst ps)"
    by auto
  from notin have none: "map_of ps k = None"
    by (simp add: map_of_eq_None_iff)
  have "map_of (fold (\<lambda>(k, v) acc. AList.update k v acc) (p # ps) d)
        = map_of (AList.update k v d) ++ map_of ps"
    using Cons.IH [OF dist] p by simp
  also have "\<dots> = (map_of d)(k \<mapsto> v) ++ map_of ps"
    by (simp add: update_conv')
  also have "\<dots> = map_of d ++ map_of (p # ps)"
    using none p by (auto simp: map_add_def fun_eq_iff split: option.splits)
  finally show ?case .
qed

lemma dict_get_update:
  "distinct (dict_keys other) \<Longrightarrow>
   dict_get (dict_update d other) k =
     (case dict_get other k of Some v \<Rightarrow> Some v | None \<Rightarrow> dict_get d k)"
  unfolding dict_get_def dict_update_def dict_keys_def
  by (simp add: map_of_fold_update map_add_def)

lemma distinct_fold_update:
  "distinct (map fst d) \<Longrightarrow>
   distinct (map fst (fold (\<lambda>(k, v) acc. AList.update k v acc) other d))"
  by (induction other arbitrary: d) (auto simp: distinct_update)


text \<open>
  Both builders overlay the supplied options on their defaults, key by key, and give the
  defaults themselves when there are no options.
\<close>

lemma build_options_merge:
  assumes "distinct (dict_keys opts)"
  shows "dict_get (build_options (Some opts)) k =
           (case dict_get opts k of Some v \<Rightarrow> Some v | None \<Rightarrow> dict_get default_options k)
       \<and> dict_get (build_options_v2 (Some opts)) k =
           (case dict_get opts k of Some v \<Rightarrow> Some v | None \<Rightarrow> dict_get default_options_v2 k)
       \<and> distinct (dict_keys (build_options (Some opts)))
       \<and> distinct (dict_keys (build_options_v2 (Some opts)))
       \<and> build_options None = default_options
       \<and> build_options_v2 None = default_options_v2
       \<and> build_options (Some []) = default_options
       \<and> build_options_v2 (Some []) = default_options_v2"
proof -
  have "dict_get (build_options (Some opts)) k =
          (case dict_get opts k of Some v \<Rightarrow> Some v | None \<Rightarrow> dict_get default_options k)"
  proof (cases "opts = []")
    case True
    then show ?thesis by (simp add: build_options_def dict_get_def)
  next
    case False
    then show ?thesis
      using dict_get_update [OF assms, of default_options k]
      by (simp add: build_options_def)
  qed
  moreover have "dict_get (build_options_v2 (Some opts)) k =
          (case dict_get opts k of Some v \<Rightarrow> Some v | None \<Rightarrow> dict_get default_options_v2 k)"
  proof (cases "opts = []")
    case True
    then show ?thesis by (simp add: build_options_v2_def dict_get_def)
  next
    case False
    then show ?thesis
      using dict_get_update [OF assms, of default_options_v2 k]
      by (simp add: build_options_v2_def)
  qed
  moreover have "distinct (dict_keys (build_options (Some opts)))"
    using distinct_fold_update [of default_options opts]
    by (simp add: build_options_def dict_keys_def dict_update_def default_options_def)
  moreover have "distinct (dict_keys (build_options_v2 (Some opts)))"
    using distinct_fold_update [of default_options_v2 opts]
    by (simp add: build_options_v2_def dict_keys_def dict_update_def default_options_v2_def)
  ultimately show ?thesis
    by (simp add: build_options_def build_options_v2_def)
qed

text \<open>
  C4. The options a parse or parseChunk request carries are the defaults of its endpoint
  overlaid, key by key and at the top level only, with the options supplied: a supplied
  key has the supplied value, whatever kind of value it is and whether or not the defaults
  have the key; any other key has its default; with no options (\<open>None\<close> or an empty
  dictionary) the request carries the default dictionary itself. The result has no key
  twice. The request of \<open>parse_document\<close> (also when called by \<open>_safe_parse_document\<close>)
  carries what \<open>_build_options\<close> gives, over the five defaults of parse; the request of
  \<open>parse_document_chunk\<close> carries what \<open>_build_options_v2\<close> gives, over the two defaults of
  parseChunk.
\<close>

theorem build_options_shallow_merge:
  assumes "distinct (dict_keys opts)"
  shows "dict_get (build_options (Some opts)) k =
           (case dict_get opts k of Some v \<Rightarrow> Some v | None \<Rightarrow> dict_get default_options k)
       \<and> dict_get (build_options_v2 (Some opts)) k =
           (case dict_get opts k of Some v \<Rightarrow> Some v | None \<Rightarrow> dict_get default_options_v2 k)
       \<and> distinct (dict_keys (build_options (Some opts)))
       \<and> distinct (dict_keys (build_options_v2 (Some opts)))
       \<and> build_options None = default_options
       \<and> build_options_v2 None = default_options_v2
       \<and> build_options (Some []) = default_options
       \<and> build_options_v2 (Some []) = default_options_v2
       \<and> request_options (parse_document_request self saved_filename bucket_name (Some opts))
           = Some (build_options (Some opts))
       \<and> request_options (parse_document_chunk_request self saved_filename bucket_name (Some opts))
           = Some (build_options_v2 (Some opts))
       \<and> request_options (parse_document_request self saved_filename bucket_name None)
           = Some default_options
       \<and> request_options (parse_document_chunk_request self saved_filename bucket_name None)
           = Some default_options_v2
       \<and> request_options (call_request self (ParseDocument saved_filename bucket_name options))
           = Some (build_options options)
       \<and> request_options (call_request self (ParseDocumentChunk saved_filename bucket_name options))
           = Some (build_options_v2 options)
       \<and> request_options (call_request self (SafeParseDocument saved_filename options))
           = Some (build_options options)"
proof -
  have req: "request_options (parse_document_request self saved_filename b os)
               = Some (build_options os)"
    "request_options (parse_document_chunk_request self saved_filename b os)
               = Some (build_options_v2 os)" for b os
    by (simp_all add: request_options_def parse_document_request_def
        parse_document_chunk_request_def dict_get_def)
  have "request_options (parse_document_request self saved_filename bucket_name (Some opts))
           = Some (build_options (Some opts))
       \<and> request_options (parse_document_chunk_request self saved_filename bucket_name (Some opts))
           = Some (build_options_v2 (Some opts))
       \<and> request_options (parse_document_request self saved_filename bucket_name None)
           = Some default_options
       \<and> request_options (parse_document_chunk_request self saved_filename bucket_name None)
           = Some default_options_v2
       \<and> request_options (call_request self (ParseDocument saved_filename bucket_name options))
           = Some (build_options options)
       \<and> request_options (call_request self (ParseDocumentChunk saved_filename bucket_name options))
           = Some (build_options_v2 options)
       \<and> request_options (call_request self (SafeParseDocument saved_filename options))
           = Some (build_options options)"
    by (simp add: req safe_parse_document_request_def build_options_def build_options_v2_def)
  with build_options_merge [OF assms, of k] show ?thesis
    by (simp only: simp_thms)
qed

theorem build_options_shallow_merge_witness:
  "distinct (dict_keys [(''include_bbox'', PBool False),
                        (''response_format'', PDict [(''kind'', PStr ''html'')]),
                        (''page_range'', PList [PInt 1, PInt 4])])
   \<and> dict_get (build_options (Some [(''include_bbox'', PBool False),
                        (''response_format'', PDict [(''kind'', PStr ''html'')]),
                        (''page_range'', PList [PInt 1, PInt 4])])) ''response_format''
       = Some (PDict [(''kind'', PStr ''html'')])
   \<and> dict_get (build_options_v2 (Some [(''include_bbox'', PBool False),
                        (''response_format'', PDict [(''kind'', PStr ''html'')]),
                        (''page_range'', PList [PInt 1, PInt 4])])) ''response_format''
       = Some (PDict [(''kind'', PStr ''html'')])
   \<and> request_options
         (parse_document_request \<lparr>base_url = ''http://xparser'', timeout = 300, semaphore = 10\<rparr>
            ''a.pdf'' None
            (Some [(''include_bbox'', PBool False),
                   (''response_format'', PDict [(''kind'', PStr ''html'')]),
                   (''page_range'', PList [PInt 1, PInt 4])]))
       = Some [(''response_format'', PDict [(''kind'', PStr ''html'')]),
               (''include_bbox'', PBool False),
               (''id_marker'', PBool True),
               (''group_markers'', PBool True),
               (''use_xparser_description'', PBool True),
               (''page_range'', PList [PInt 1, PInt 4])]
   \<and> request_options
         (parse_document_chunk_request
            \<lparr>base_url = ''http://xparser'', timeout = 300, semaphore = 10\<rparr>
            ''a.pdf'' None
            (Some [(''include_bbox'', PBool False),
                   (''response_format'', PDict [(''kind'', PStr ''html'')]),
                   (''page_range'', PList [PInt 1, PInt 4])]))
       = Some [(''use_ai_description'', PBool True),
               (''table_format'', PStr ''markdown''),
               (''include_bbox'', PBool False),
               (''response_format'', PDict [(''kind'', PStr ''html'')]),
               (''page_range'', PList [PInt 1, PInt 4])]"
proof -
  have d: "distinct (dict_keys [(''include_bbox'', PBool False),
                        (''response_format'', PDict [(''kind'', PStr ''html'')]),
                        (''page_range'', PList [PInt 1, PInt 4])])"
    by (simp add: dict_keys_def)
  show ?thesis
    using d build_options_shallow_merge [OF d, of "''response_format''"
        "\<lparr>base_url = ''http://xparser'', timeout = 300, semaphore = 10\<rparr>" "''a.pdf''" None]
    by (simp add: dict_get_def build_options_def build_options_v2_def dict_update_def
        default_options_def default_options_v2_def)
qed

text \<open>
  C6, as the spec words it: both default sets have a key \<open>use_description\<close>. Neither has:
  the lookup of that key fails in both.
\<close>

theorem default_options_counterexample:
  "dict_get (build_options None) ''use_description'' = None
   \<and> dict_get (build_options_v2 None) ''use_description'' = None"
  by (simp add: build_options_def build_options_v2_def default_options_def
      default_options_v2_def dict_get_def)

text \<open>
  C6, amended. The default options of parse are exactly the five entries
  \<open>response_format: "layout_json"\<close>, \<open>include_bbox: true\<close>, \<open>id_marker: true\<close>,
  \<open>group_markers: true\<close> and \<open>use_xparser_description: true\<close>; those of parseChunk are
  exactly the two entries \<open>use_ai_description: true\<close> and \<open>table_format: "markdown"\<close>. The
  two sets differ and share no key.
\<close>

theorem default_options_exact:
  "build_options None =
     [(''response_format'', PStr ''layout_json''), (''include_bbox'', PBool True),
      (''id_marker'', PBool True), (''group_markers'', PBool True),
      (''use_xparser_description'', PBool True)]
   \<and> build_options_v2 None =
     [(''use_ai_description'', PBool True), (''table_format'', PStr ''markdown'')]
   \<and> dict_keys (build_options None) =
     [''response_format'', ''include_bbox'', ''id_marker'', ''group_markers'',
      ''use_xparser_description'']
   \<and> dict_keys (build_options_v2 None) = [''use_ai_description'', ''table_format'']
   \<and> distinct (dict_keys (build_options None))
   \<and> distinct (dict_keys (build_options_v2 None))
   \<and> build_options None \<noteq> build_options_v2 None
   \<and> set (dict_keys (build_options None)) \<inter> set (dict_keys (build_options_v2 None)) = {}"
  by (simp add: build_options_def build_options_v2_def default_options_def
      default_options_v2_def dict_keys_def)

section \<open>Properties of one call\<close>

text \<open>
  C2, as the spec words it: a 404 response raises an error that preserves the body text of
  the response. For the file \<open>a.pdf\<close> and a 404 response with the body \<open>NoSuchKey\<close> the
  message of the error raised does not contain the body.
\<close>

theorem not_found_body_counterexample:
  "parse_document_result ''a.pdf''
     (Responded \<lparr>status_code = 404, response_text = ''NoSuchKey'', response_json = None\<rparr>)
   = Inl (FileNotFoundError (file_missing_prefix @ ''a.pdf''))
   \<and> \<not> sublist ''NoSuchKey'' (file_missing_prefix @ ''a.pdf'')"
  by code_simp

text \<open>
  C2, amended. On a response with a status outside 200..299, parse and parseChunk raise:
  for 400 a \<open>ValueError\<close> (InvalidRequest) whose message ends with the body text of the
  response; for 404 a \<open>FileNotFoundError\<close> (NotFound) whose message ends with the name of
  the requested document; for 500 a \<open>RuntimeError\<close> (ServerError) whose message ends with
  the body text; for every other such status the \<open>HTTPStatusError\<close> of httpx itself
  (Unclassified), which holds the response with its status and body.
\<close>

theorem parse_error_classification:
  assumes "\<not> (200 \<le> status \<and> status \<le> 299)" and "status \<noteq> 400" and "status \<noteq> 404"
    and "status \<noteq> 500"
  shows "parse_document_result saved_filename
           (Responded \<lparr>status_code = 400, response_text = body, response_json = js\<rparr>)
         = Inl (ValueError (wrong_request_prefix @ body))
       \<and> parse_document_result saved_filename
           (Responded \<lparr>status_code = 404, response_text = body, response_json = js\<rparr>)
         = Inl (FileNotFoundError (file_missing_prefix @ saved_filename))
       \<and> parse_document_result saved_filename
           (Responded \<lparr>status_code = 500, response_text = body, response_json = js\<rparr>)
         = Inl (RuntimeError (server_error_prefix @ body))
       \<and> parse_document_result saved_filename
           (Responded \<lparr>status_code = status, response_text = body, response_json = js\<rparr>)
         = Inl (HTTPStatusError \<lparr>status_code = status, response_text = body, response_json = js\<rparr>)
       \<and> parse_document_chunk_result saved_filename
           (Responded \<lparr>status_code = 400, response_text = body, response_json = js\<rparr>)
         = Inl (ValueError (wrong_request_prefix @ body))
       \<and> parse_document_chunk_result saved_filename
           (Responded \<lparr>status_code = 404, response_text = body, response_json = js\<rparr>)
         = Inl (FileNotFoundError (file_missing_prefix @ saved_filename))
       \<and> parse_document_chunk_result saved_filename
           (Responded \<lparr>status_code = 500, response_text = body, response_json = js\<rparr>)
         = Inl (RuntimeError (server_error_prefix @ body))
       \<and> parse_document_chunk_result saved_filename
           (Responded \<lparr>status_code = status, response_text = body, response_json = js\<rparr>)
         = Inl (HTTPStatusError \<lparr>status_code = status, response_text = body, response_json = js\<rparr>)"
  using assms
  by (auto simp: parse_document_result_def parse_document_chunk_result_def raise_for_status_def)

theorem parse_error_classification_witness:
  "\<not> (200 \<le> (503::int) \<and> (503::int) \<le> 299) \<and> (503::int) \<noteq> 400 \<and> (503::int) \<noteq> 404
   \<and> (503::int) \<noteq> 500
   \<and> parse_document_result ''a.pdf''
        (Responded \<lparr>status_code = 503, response_text = ''busy'', response_json = None\<rparr>)
      = Inl (HTTPStatusError \<lparr>status_code = 503, response_text = ''busy'', response_json = None\<rparr>)
   \<and> parse_document_chunk_result ''a.pdf''
        (Responded \<lparr>status_code = 404, response_text = ''busy'', response_json = None\<rparr>)
      = Inl (FileNotFoundError (file_missing_prefix @ ''a.pdf''))"
  using parse_error_classification [of 503 "''a.pdf''" "''busy''" None]
  by simp

text \<open>
  C5. A parse call for \<open>a.pdf\<close> on a client with the base URL \<open>http://xparser:8000\<close>
  posts to \<open>http://xparser:8000/api/v2/parse\<close>, which is not the path \<open>/api/v1/parse\<close>.
\<close>

theorem parse_document_url_v2:
  "url (parse_document_request \<lparr>base_url = ''http://xparser:8000'', timeout = 300, semaphore = 10\<rparr>
          ''a.pdf'' None None) = ''http://xparser:8000/api/v2/parse''
   \<and> url (parse_document_request \<lparr>base_url = ''http://xparser:8000'', timeout = 300, semaphore = 10\<rparr>
          ''a.pdf'' None None) \<noteq> ''http://xparser:8000/api/v1/parse''
   \<and> http_method (parse_document_request \<lparr>base_url = ''http://xparser:8000'', timeout = 300,
          semaphore = 10\<rparr> ''a.pdf'' None None) = POST"
  by (simp add: parse_document_request_def)

text \<open>
  C7. \<open>check_health\<close> sends a GET to the base URL followed by \<open>/health\<close>, with a
  timeout of ten seconds, and never raises. It returns true exactly when the exchange ended with a
  response of status 200 whose JSON body is a dictionary with \<open>"healthy"\<close> under
  \<open>status\<close>, and false in every other case: a failure of the transport, any other
  status, a body that is not JSON or not a dictionary, another or no \<open>status\<close> entry.
\<close>

theorem check_health_true_iff:
  "call_request self CheckHealth
     = \<lparr>http_method = GET, url = base_url self @ ''/health'', json_body = None,
        request_timeout = 10\<rparr>
   \<and> check_health_result outcome =
       Inr (\<exists>response health_data.
              outcome = Responded response \<and> status_code response = 200
            \<and> response_json response = Some (PDict health_data)
            \<and> dict_get health_data ''status'' = Some (PStr ''healthy''))
   \<and> call_result CheckHealth outcome =
       Inr (PBool (\<exists>response health_data.
              outcome = Responded response \<and> status_code response = 200
            \<and> response_json response = Some (PDict health_data)
            \<and> dict_get health_data ''status'' = Some (PStr ''healthy'')))"
proof -
  have "check_health_result outcome =
       Inr (\<exists>response health_data.
              outcome = Responded response \<and> status_code response = 200
            \<and> response_json response = Some (PDict health_data)
            \<and> dict_get health_data ''status'' = Some (PStr ''healthy''))"
    by (auto simp: check_health_result_def check_health_try_def
        split: http_outcome.splits option.splits pyval.splits)
  then show ?thesis by (simp add: health_request_def)
qed

text \<open>
  The four cases of the spec: a refused connection, the status 503, the status 200 with
  \<open>degraded\<close>, and the status 200 with \<open>healthy\<close>.
\<close>

lemma check_health_examples:
  "check_health_result (TransportFailure ''connection refused'') = Inr False"
  "check_health_result (Responded \<lparr>status_code = 503, response_text = ''unavailable'',
                                    response_json = None\<rparr>) = Inr False"
  "check_health_result (Responded \<lparr>status_code = 200, response_text = ''degraded'',
                          response_json = Some (PDict [(''status'', PStr ''degraded'')])\<rparr>)
     = Inr False"
  "check_health_result (Responded \<lparr>status_code = 200, response_text = ''healthy'',
                          response_json = Some (PDict [(''status'', PStr ''healthy'')])\<rparr>)
     = Inr True"
  by (simp_all add: check_health_result_def check_health_try_def dict_get_def)

text \<open>
  C8. \<open>_safe_parse_document\<close> never raises. Whatever way the exchange ended, it returns
  what the wrapped \<open>parse_document\<close> returned when that returned, and \<open>None\<close> when
  that raised; so it returns \<open>None\<close> after a failure of the transport and after a
  response of any status outside 200..299.
\<close>

theorem safe_parse_never_raises:
  assumes "\<not> (200 \<le> status_code response \<and> status_code response \<le> 299)"
  shows "safe_parse_document_result saved_filename outcome =
           Inr (case parse_document_result saved_filename outcome of
                  Inl e \<Rightarrow> PNone
                | Inr result \<Rightarrow> result)
       \<and> safe_parse_document_result saved_filename (TransportFailure msg) = Inr PNone
       \<and> safe_parse_document_result saved_filename (Responded response) = Inr PNone
       \<and> call_result (SafeParseDocument saved_filename options) outcome =
           Inr (case parse_document_result saved_filename outcome of
                  Inl e \<Rightarrow> PNone
                | Inr result \<Rightarrow> result)"
  using assms
  by (auto simp: safe_parse_document_result_def parse_document_result_def raise_for_status_def
      split: sum.splits)

theorem safe_parse_never_raises_witness:
  "\<not> (200 \<le> status_code \<lparr>status_code = 404, response_text = ''NoSuchKey'', response_json = None\<rparr>
       \<and> status_code \<lparr>status_code = 404, response_text = ''NoSuchKey'', response_json = None\<rparr>
           \<le> 299)
   \<and> safe_parse_document_result ''a.pdf''
        (Responded \<lparr>status_code = 404, response_text = ''NoSuchKey'', response_json = None\<rparr>)
      = Inr PNone
   \<and> safe_parse_document_result ''a.pdf''
        (Responded \<lparr>status_code = 200, response_text = ''[3]'',
                     response_json = Some (PList [PInt 3])\<rparr>)
      = Inr (PList [PInt 3])"
  using safe_parse_never_raises
    [of "\<lparr>status_code = 404, response_text = ''NoSuchKey'', response_json = None\<rparr>"
        "''a.pdf''"
        "Responded \<lparr>status_code = 200, response_text = ''[3]'',
                     response_json = Some (PList [PInt 3])\<rparr>"]
  by (simp add: parse_document_result_def raise_for_status_def)

text \<open>
  C10. The request of \<open>_safe_parse_document\<close> carries \<open>bucket_name\<close> = \<open>None\<close> in its JSON
  body, where a \<open>parse_document\<close> call that leaves the bucket out carries \<open>"aidoc"\<close>; so
  does the request of every call that \<open>batch_parse_documents\<close> makes.
\<close>

theorem safe_parse_bucket_none:
  "json_body (safe_parse_document_request self saved_filename options) =
     Some (PDict [(''saved_filename'', PStr saved_filename),
                  (''bucket_name'', PNone),
                  (''options'', PDict (build_options options))])
   \<and> json_body (parse_document_request self saved_filename None options) =
     Some (PDict [(''saved_filename'', PStr saved_filename),
                  (''bucket_name'', PStr ''aidoc''),
                  (''options'', PDict (build_options options))])
   \<and> map (\<lambda>c. json_body (call_request self c)) (batch_calls saved_filenames options) =
     map (\<lambda>saved_filename.
            Some (PDict [(''saved_filename'', PStr saved_filename),
                         (''bucket_name'', PNone),
                         (''options'', PDict (build_options options))])) saved_filenames"
  by (simp add: safe_parse_document_request_def parse_document_request_def batch_calls_def)


section \<open>Properties of concurrent calls\<close>

text \<open>Replacing one element of a list changes the number of elements with a property by that element alone.\<close>

lemma length_filter_update:
  "i < length xs \<Longrightarrow>
   length (filter P (xs[i := y])) + (if P (xs ! i) then 1 else 0)
     = length (filter P xs) + (if P y then 1 else 0)"
proof (induction xs arbitrary: i)
  case Nil
  then show ?case by simp
next
  case (Cons x xs)
  show ?case
  proof (cases i)
    case 0
    then show ?thesis by simp
  next
    case (Suc j)
    with Cons.prems have "j < length xs" by simp
    from Cons.IH [OF this] Suc show ?thesis by simp
  qed
qed

text \<open>Calls that have just been made hold no unit.\<close>

lemma in_flight_append_created:
  "length (filter holds_unit (ts @ map (\<lambda>c. (c, Created)) calls)) = length (filter holds_unit ts)"
  by (induction calls) (simp_all add: filter_empty_conv)

text \<open>
  Every event keeps the sum of the free units and the requests in flight, and leaves the
  base URL and the timeout alone; so does every sequence of events.
\<close>

lemma fire_capacity:
  assumes "fire e s = Some s'"
  shows "semaphore (client s') + in_flight s' = semaphore (client s) + in_flight s"
proof (cases e)
  case (Start calls)
  with assms show ?thesis
    by (auto simp: in_flight_def in_flight_append_created)
next
  case (Send i)
  with assms have i: "i < length (tasks s)"
    by (simp split: if_splits)
  obtain c st where t: "tasks s ! i = (c, st)" by (cases "tasks s ! i")
  from assms Send i t have st: "st = Created"
    by (cases st) simp_all
  show ?thesis
  proof (cases "uses_semaphore c")
    case True
    with assms Send i t st have pos: "semaphore (client s) \<noteq> 0"
      and s': "s' = \<lparr>client = (client s)\<lparr>semaphore := semaphore (client s) - 1\<rparr>,
                      tasks = (tasks s)[i := (c, Requested (call_request (client s) c))]\<rparr>"
      by (auto split: if_splits)
    from length_filter_update [OF i, of holds_unit "(c, Requested (call_request (client s) c))"]
      t st True
    have "length (filter holds_unit ((tasks s)[i := (c, Requested (call_request (client s) c))]))
          = length (filter holds_unit (tasks s)) + 1"
      by simp
    with pos s' show ?thesis by (simp add: in_flight_def)
  next
    case False
    with assms Send i t st
    have s': "s' = s\<lparr>tasks := (tasks s)[i := (c, Requested (call_request (client s) c))]\<rparr>"
      by auto
    from length_filter_update [OF i, of holds_unit "(c, Requested (call_request (client s) c))"]
      t st False
    have "length (filter holds_unit ((tasks s)[i := (c, Requested (call_request (client s) c))]))
          = length (filter holds_unit (tasks s))"
      by simp
    with s' show ?thesis by (simp add: in_flight_def)
  qed
next
  case (Complete i outcome)
  with assms have i: "i < length (tasks s)"
    by (simp split: if_splits)
  obtain c st where t: "tasks s ! i = (c, st)" by (cases "tasks s ! i")
  from assms Complete i t obtain request where st: "st = Requested request"
    by (cases st) simp_all
  from assms Complete i t st
  have s': "s' = \<lparr>client = (if uses_semaphore c
                              then (client s)\<lparr>semaphore := semaphore (client s) + 1\<rparr>
                              else client s),
                   tasks = (tasks s)[i := (c, Finished request outcome)]\<rparr>"
    by auto
  from length_filter_update [OF i, of holds_unit "(c, Finished request outcome)"] t st
  have "length (filter holds_unit ((tasks s)[i := (c, Finished request outcome)]))
          + (if uses_semaphore c then 1 else 0) = length (filter holds_unit (tasks s))"
    by simp
  with s' show ?thesis by (auto simp: in_flight_def)
qed

lemma fire_config:
  assumes "fire e s = Some s'"
  shows "base_url (client s') = base_url (client s) \<and> timeout (client s') = timeout (client s)"
  using assms
  by (cases e) (auto split: if_splits prod.splits stage.splits)

lemma run_capacity:
  "run events s = Some s' \<Longrightarrow>
   semaphore (client s') + in_flight s' = semaphore (client s) + in_flight s"
proof (induction events arbitrary: s)
  case Nil
  then show ?case by simp
next
  case (Cons e es)
  then obtain s1 where f: "fire e s = Some s1" and r: "run es s1 = Some s'"
    by (auto split: option.splits)
  from Cons.IH [OF r] fire_capacity [OF f] show ?case by simp
qed

lemma run_config:
  "run events s = Some s' \<Longrightarrow>
   base_url (client s') = base_url (client s) \<and> timeout (client s') = timeout (client s)"
proof (induction events arbitrary: s)
  case Nil
  then show ?case by simp
next
  case (Cons e es)
  then obtain s1 where f: "fire e s = Some s1" and r: "run es s1 = Some s'"
    by (auto split: option.splits)
  from Cons.IH [OF r] fire_config [OF f] show ?case by simp
qed

text \<open>
  A call under the semaphore sends its request only when a unit is free, and takes it;
  when its exchange ends, with whatever outcome, it gives the unit back.
\<close>

lemma send_takes_unit:
  assumes "fire (Send i) s = Some s'" and "uses_semaphore (fst (tasks s ! i))"
  shows "0 < semaphore (client s) \<and> semaphore (client s') = semaphore (client s) - 1
       \<and> \<not> holds_unit (tasks s ! i) \<and> holds_unit (tasks s' ! i)"
  using assms
  by (auto split: if_splits prod.splits stage.splits)

lemma complete_returns_unit:
  assumes "fire (Complete i outcome) s = Some s'" and "uses_semaphore (fst (tasks s ! i))"
  shows "semaphore (client s') = semaphore (client s) + 1
       \<and> holds_unit (tasks s ! i) \<and> \<not> holds_unit (tasks s' ! i)"
  using assms
  by (auto split: if_splits prod.splits stage.splits)





lemma parse_request_is_post:
  "uses_semaphore c \<Longrightarrow> http_method (call_request self c) = POST"
  by (cases c)
    (simp_all add: parse_document_request_def parse_document_chunk_request_def
      safe_parse_document_request_def)







text \<open>
  C9. After any sequence of events on a client, that is any calls of the five request
  methods and of \<open>batch_parse_documents\<close>, in any interleaving, the base URL and the
  timeout are those given to the constructor and the capacity of the semaphore (free
  units plus units held) is \<open>max_concurrent\<close>. The client differs from the constructed one
  in the value of its semaphore only, by the number of requests in flight; nothing else
  of a call stays with it.
\<close>

theorem configuration_fixed:
  assumes "XParserClient_init url' timeout' max_concurrent = Inr self"
    and "run events (fresh self) = Some s"
  shows "base_url (client s) = url'
       \<and> timeout (client s) = (case timeout' of None \<Rightarrow> 300 | Some t \<Rightarrow> t)
       \<and> int (semaphore (client s)) + int (in_flight s)
           = (case max_concurrent of None \<Rightarrow> 10 | Some k \<Rightarrow> k)
       \<and> client s = self\<lparr>semaphore := semaphore self - in_flight s\<rparr>"
proof -
  define k where "k = (case max_concurrent of None \<Rightarrow> 10 | Some k \<Rightarrow> k)"
  from assms(1) have k: "0 \<le> k" and sem: "semaphore self = nat k"
    and url: "base_url self = url'"
    and tmo: "timeout self = (case timeout' of None \<Rightarrow> 300 | Some t \<Rightarrow> t)"
    by (auto simp: XParserClient_init_def Let_def k_def split: if_splits)
  from run_capacity [OF assms(2)]
  have cap: "semaphore (client s) + in_flight s = semaphore self"
    by (simp add: fresh_def in_flight_def)
  from run_config [OF assms(2)]
  have cfg: "base_url (client s) = base_url self" "timeout (client s) = timeout self"
    by (simp_all add: fresh_def)
  from cap have "semaphore (client s) = semaphore self - in_flight s" by simp
  with cfg have eq: "client s = self\<lparr>semaphore := semaphore self - in_flight s\<rparr>"
    by (cases "client s", cases self) simp
  from cap k sem have "int (semaphore (client s)) + int (in_flight s) = k"
    by linarith
  then have "int (semaphore (client s)) + int (in_flight s)
           = (case max_concurrent of None \<Rightarrow> 10 | Some k \<Rightarrow> k)"
    by (simp only: k_def)
  with cfg url tmo eq show ?thesis by simp
qed

theorem configuration_fixed_witness:
  "XParserClient_init ''http://xparser'' (Some 60) (Some 2)
     = Inr \<lparr>base_url = ''http://xparser'', timeout = 60, semaphore = 2\<rparr>
   \<and> (case run [Start [ParseDocument ''a.pdf'' None None, CheckHealth],
                 Send 0, Send 1,
                 Start (batch_calls [''b.pdf''] None),
                 Complete 1 (TransportFailure ''connection refused''),
                 Send 2,
                 Complete 0 (Responded \<lparr>status_code = 500, response_text = ''boom'',
                                          response_json = None\<rparr>),
                 Complete 2 (Responded \<lparr>status_code = 200, response_text = ''{}'',
                                          response_json = Some (PDict [])\<rparr>)]
              (fresh \<lparr>base_url = ''http://xparser'', timeout = 60, semaphore = 2\<rparr>) of
         None \<Rightarrow> False
       | Some s \<Rightarrow> client s = \<lparr>base_url = ''http://xparser'', timeout = 60, semaphore = 2\<rparr>
                  \<and> in_flight s = 0)"
proof -
  let ?self = "\<lparr>base_url = ''http://xparser'', timeout = 60, semaphore = 2\<rparr>"
  let ?events = "[Start [ParseDocument ''a.pdf'' None None, CheckHealth],
                 Send 0, Send 1,
                 Start (batch_calls [''b.pdf''] None),
                 Complete 1 (TransportFailure ''connection refused''),
                 Send 2,
                 Complete 0 (Responded \<lparr>status_code = 500, response_text = ''boom'',
                                          response_json = None\<rparr>),
                 Complete 2 (Responded \<lparr>status_code = 200, response_text = ''{}'',
                                          response_json = Some (PDict [])\<rparr>)]"
  have init: "XParserClient_init ''http://xparser'' (Some 60) (Some 2) = Inr ?self"
    by (simp add: XParserClient_init_def)
  have "\<exists>s. run ?events (fresh ?self) = Some s \<and> in_flight s = 0"
    by (simp add: fresh_def batch_calls_def in_flight_def)
  then obtain s where run: "run ?events (fresh ?self) = Some s" and idle: "in_flight s = 0"
    by blast
  from configuration_fixed [OF init run] idle have "client s = ?self"
    by simp
  with init run idle show ?thesis by simp
qed


section \<open>Properties of batch_parse_documents\<close>

text \<open>No event removes a call or changes which call stands at a position.\<close>

lemma fire_keeps_calls:
  assumes "fire e s = Some s'"
  shows "length (tasks s) \<le> length (tasks s')
       \<and> (\<forall>i<length (tasks s). fst (tasks s' ! i) = fst (tasks s ! i))"
proof (cases e)
  case (Start calls)
  with assms show ?thesis by (auto simp: nth_append)
next
  case (Send j)
  with assms show ?thesis
    by (auto simp: nth_list_update split: if_splits prod.splits stage.splits)
next
  case (Complete j outcome)
  with assms show ?thesis
    by (auto simp: nth_list_update split: if_splits prod.splits stage.splits)
qed

lemma run_keeps_calls:
  "run events s = Some s' \<Longrightarrow>
   length (tasks s) \<le> length (tasks s')
   \<and> (\<forall>i<length (tasks s). fst (tasks s' ! i) = fst (tasks s ! i))"
proof (induction events arbitrary: s)
  case Nil
  then show ?case by simp
next
  case (Cons e es)
  then obtain s1 where f: "fire e s = Some s1" and r: "run es s1 = Some s'"
    by (auto split: option.splits)
  from Cons.IH [OF r] fire_keeps_calls [OF f] show ?case by auto
qed

text \<open>
  \<open>gather\<close> has a result exactly when every call has one, and then lists the results in
  the order of the calls.
\<close>

lemma gather_Some:
  "gather ts = Some rs \<Longrightarrow>
   length rs = length ts \<and> (\<forall>i<length ts. task_result (ts ! i) = Some (rs ! i))"
proof (induction ts arbitrary: rs)
  case Nil
  then show ?case by simp
next
  case (Cons t ts)
  then obtain r rs' where t: "task_result t = Some r" and g: "gather ts = Some rs'"
    and rs: "rs = r # rs'"
    by (auto split: option.splits)
  from Cons.IH [OF g] t rs show ?case
    by (auto simp: nth_Cons split: nat.splits)
qed

lemma gather_None:
  "gather ts = None \<longleftrightarrow> (\<exists>t \<in> set ts. task_result t = None)"
  by (induction ts) (auto split: option.splits)

lemma task_result_Some:
  "task_result (c, st) = Some r \<Longrightarrow> \<exists>request outcome. st = Finished request outcome \<and> r = call_result c outcome"
  by (cases st) simp_all

lemma gather_batch_finished:
  "gather (map (\<lambda>(f, outcome). (SafeParseDocument f options, Finished (rq f) outcome)) zs)
     = Some (map (\<lambda>(f, outcome). safe_parse_document_result f outcome) zs)"
  by (induction zs) auto

text \<open>The loop appends one entry per gathered result and counts the results that are no exception.\<close>

lemma process_results_eq:
  "process_results results (acc, n) =
     (acc @ map (\<lambda>r. case r of Inl e \<Rightarrow> PNone | Inr v \<Rightarrow> v) results,
      n + length (filter (\<lambda>r. \<not> isl r) results))"
proof (induction results arbitrary: acc n)
  case Nil
  then show ?case by simp
next
  case (Cons r rs)
  then show ?case by (cases r) simp_all
qed

text \<open>
  With a free unit, the calls of a batch can run one after the other, whatever the
  outcomes of their exchanges; the client is then as it was before.
\<close>

lemma run_one_by_one:
  assumes "0 < semaphore (client s)" and "length outcomes = length fs"
    and "tasks s = pre @ map (\<lambda>c. (c, Created)) (batch_calls fs options)"
  shows "run (one_by_one (length pre) outcomes) s =
           Some (s\<lparr>tasks := pre @ map (\<lambda>(f, outcome).
                      (SafeParseDocument f options,
                       Finished (safe_parse_document_request (client s) f options) outcome))
                    (zip fs outcomes)\<rparr>)"
  using assms
proof (induction fs arbitrary: pre outcomes s)
  case Nil
  then show ?case by (simp add: batch_calls_def)
next
  case (Cons f fs)
  from Cons.prems(2) obtain outcome rest where oc: "outcomes = outcome # rest"
    and len: "length rest = length fs"
    by (cases outcomes) auto
  let ?c = "SafeParseDocument f options"
  let ?rq = "safe_parse_document_request (client s) f options"
  let ?later = "map (\<lambda>c. (c, Created)) (batch_calls fs options)"
  from Cons.prems(3) have ts: "tasks s = pre @ (?c, Created) # ?later"
    by (simp add: batch_calls_def)
  let ?s1 = "\<lparr>client = (client s)\<lparr>semaphore := semaphore (client s) - 1\<rparr>,
              tasks = pre @ (?c, Requested ?rq) # ?later\<rparr>"
  from ts Cons.prems(1) have f1: "fire (Send (length pre)) s = Some ?s1"
    by simp
  let ?s2 = "s\<lparr>tasks := (pre @ [(?c, Finished ?rq outcome)]) @ ?later\<rparr>"
  from Cons.prems(1) have f2: "fire (Complete (length pre) outcome) ?s1 = Some ?s2"
    by simp
  have "run (one_by_one (length (pre @ [(?c, Finished ?rq outcome)])) rest) ?s2 =
          Some (?s2\<lparr>tasks := (pre @ [(?c, Finished ?rq outcome)]) @ map (\<lambda>(f, outcome).
                      (SafeParseDocument f options,
                       Finished (safe_parse_document_request (client ?s2) f options) outcome))
                    (zip fs rest)\<rparr>)"
    by (rule Cons.IH) (use Cons.prems(1) len in simp_all)
  with f1 f2 oc show ?case by simp
qed


text \<open>
  When \<open>batch_parse_documents\<close> has a result, after whatever events, each of its calls has
  finished and the entry at its index is what its \<open>parse_document\<close> returned, or \<open>None\<close>
  when that raised.
\<close>

lemma batch_result_aligned:
  assumes run: "run (Start (batch_calls fs options) # events) s0 = Some s"
    and res: "batch_parse_documents_result s (length (tasks s0)) (length fs) = Some rs"
  shows "length rs = length fs
       \<and> (\<forall>i<length fs. \<exists>request outcome.
             tasks s ! (length (tasks s0) + i)
               = (SafeParseDocument (fs ! i) options, Finished request outcome)
           \<and> rs ! i = (case parse_document_result (fs ! i) outcome of
                         Inl e \<Rightarrow> PNone | Inr result \<Rightarrow> result))"
proof -
  let ?first = "length (tasks s0)"
  let ?n = "length fs"
  let ?s1 = "s0\<lparr>tasks := tasks s0 @ map (\<lambda>c. (c, Created)) (batch_calls fs options)\<rparr>"
  from run have r1: "run events ?s1 = Some s" by simp
  from run_keeps_calls [OF r1]
  have len: "?first + ?n \<le> length (tasks s)"
    and calls: "\<And>j. j < ?first + ?n \<Longrightarrow> fst (tasks s ! j) = fst (tasks ?s1 ! j)"
    by (simp_all add: batch_calls_def)
  have call: "fst (tasks s ! (?first + i)) = SafeParseDocument (fs ! i) options" if "i < ?n" for i
    using calls [of "?first + i"] that by (simp add: batch_calls_def nth_append)
  let ?slice = "take ?n (drop ?first (tasks s))"
  from res obtain results where g: "gather ?slice = Some results"
    and rs: "rs = fst (process_results results ([], 0))"
    by (auto simp: batch_parse_documents_result_def split: option.splits)
  from len have slen: "length ?slice = ?n" by simp
  from gather_Some [OF g] slen
  have rlen: "length results = ?n"
    and each: "\<And>i. i < ?n \<Longrightarrow> task_result (?slice ! i) = Some (results ! i)"
    by simp_all
  from rs have rs_map: "rs = map (\<lambda>r. case r of Inl e \<Rightarrow> PNone | Inr v \<Rightarrow> v) results"
    by (simp add: process_results_eq)
  have "\<exists>request outcome.
          tasks s ! (?first + i) = (SafeParseDocument (fs ! i) options, Finished request outcome)
        \<and> rs ! i = (case parse_document_result (fs ! i) outcome of
                      Inl e \<Rightarrow> PNone | Inr result \<Rightarrow> result)" if i: "i < ?n" for i
  proof -
    from i len have nth: "?slice ! i = tasks s ! (?first + i)" by simp
    obtain c st where t: "tasks s ! (?first + i) = (c, st)" by (cases "tasks s ! (?first + i)")
    with call [OF i] have c: "c = SafeParseDocument (fs ! i) options" by simp
    from each [OF i] nth t have "task_result (c, st) = Some (results ! i)" by simp
    from task_result_Some [OF this] obtain request outcome
      where st: "st = Finished request outcome" and r: "results ! i = call_result c outcome"
      by blast
    from r c have "results ! i = safe_parse_document_result (fs ! i) outcome" by simp
    with rs_map i rlen
    have "rs ! i = (case parse_document_result (fs ! i) outcome of
                      Inl e \<Rightarrow> PNone | Inr result \<Rightarrow> result)"
      by (simp add: safe_parse_document_result_def split: sum.splits)
    with t c st show ?thesis by blast
  qed
  with rs_map rlen show ?thesis by simp
qed

text \<open>With a free unit and every exchange ending, there is a run in which the batch returns.\<close>

lemma batch_returns:
  assumes "0 < semaphore (client s0)" and "length outcomes = length fs"
  shows "\<exists>s'. run (Start (batch_calls fs options) # one_by_one (length (tasks s0)) outcomes) s0
               = Some s'
           \<and> batch_parse_documents_result s' (length (tasks s0)) (length fs)
               = Some (map (\<lambda>(f, outcome). case parse_document_result f outcome of
                                              Inl e \<Rightarrow> PNone | Inr result \<Rightarrow> result)
                         (zip fs outcomes))"
proof -
  let ?s1 = "s0\<lparr>tasks := tasks s0 @ map (\<lambda>c. (c, Created)) (batch_calls fs options)\<rparr>"
  let ?done = "map (\<lambda>(f, outcome).
                      (SafeParseDocument f options,
                       Finished (safe_parse_document_request (client ?s1) f options) outcome))
                    (zip fs outcomes)"
  let ?s' = "?s1\<lparr>tasks := tasks s0 @ ?done\<rparr>"
  have "run (one_by_one (length (tasks s0)) outcomes) ?s1 = Some ?s'"
    by (rule run_one_by_one) (use assms in simp_all)
  then have r: "run (Start (batch_calls fs options) # one_by_one (length (tasks s0)) outcomes) s0
                  = Some ?s'"
    by simp
  from assms(2) have "take (length fs) (drop (length (tasks s0)) (tasks ?s')) = ?done"
    by simp
  then have "batch_parse_documents_result ?s' (length (tasks s0)) (length fs)
               = Some (map (\<lambda>(f, outcome). case parse_document_result f outcome of
                                              Inl e \<Rightarrow> PNone | Inr result \<Rightarrow> result)
                         (zip fs outcomes))"
    unfolding batch_parse_documents_result_def
    by (simp add: gather_batch_finished process_results_eq safe_parse_document_result_def
        split: sum.splits prod.splits cong: map_cong)
  with r show ?thesis by blast
qed


text \<open>
  C3, as the spec words it: the entries that are null are exactly those of the calls that
  failed. For the one file \<open>a.pdf\<close> and a response of status 200 whose JSON body is
  \<open>null\<close>, the batch returns \<open>[None]\<close>, and the call did not fail: \<open>parse_document\<close>
  returned (the value \<open>None\<close>).
\<close>

theorem batch_null_counterexample:
  "run [Start (batch_calls [''a.pdf''] None), Send 0,
        Complete 0 (Responded \<lparr>status_code = 200, response_text = ''null'',
                                 response_json = Some PNone\<rparr>)]
     (fresh \<lparr>base_url = ''http://xparser'', timeout = 300, semaphore = 10\<rparr>)
   = Some \<lparr>client = \<lparr>base_url = ''http://xparser'', timeout = 300, semaphore = 10\<rparr>,
           tasks = [(SafeParseDocument ''a.pdf'' None,
                     Finished (safe_parse_document_request
                                 \<lparr>base_url = ''http://xparser'', timeout = 300, semaphore = 10\<rparr>
                                 ''a.pdf'' None)
                       (Responded \<lparr>status_code = 200, response_text = ''null'',
                                    response_json = Some PNone\<rparr>))]\<rparr>
   \<and> batch_parse_documents_result
       \<lparr>client = \<lparr>base_url = ''http://xparser'', timeout = 300, semaphore = 10\<rparr>,
        tasks = [(SafeParseDocument ''a.pdf'' None,
                  Finished (safe_parse_document_request
                              \<lparr>base_url = ''http://xparser'', timeout = 300, semaphore = 10\<rparr>
                              ''a.pdf'' None)
                    (Responded \<lparr>status_code = 200, response_text = ''null'',
                                 response_json = Some PNone\<rparr>))]\<rparr> 0 1 = Some [PNone]
   \<and> parse_document_result ''a.pdf''
       (Responded \<lparr>status_code = 200, response_text = ''null'', response_json = Some PNone\<rparr>)
     = Inr PNone"
  by (simp add: fresh_def batch_calls_def batch_parse_documents_result_def
      safe_parse_document_result_def parse_document_result_def raise_for_status_def)

text \<open>
  C3, amended. Whenever \<open>batch_parse_documents\<close> has a result, all its calls have finished
  (it waits for every one of them, failed or not), the result has the length of the input,
  and index i holds what \<open>parse_document\<close> returned for the i-th file name when that call
  succeeded and \<open>None\<close> when it failed, in whatever order the calls were sent and completed.
  (An entry \<open>None\<close> therefore marks a failed call only as far as successful results are not
  \<open>None\<close> themselves.) When the semaphore has a free unit and every exchange ends, there is
  a run in which the batch returns that result.
\<close>

theorem batch_parse_documents_aligned:
  "(run (Start (batch_calls fs options) # events) s0 = Some s
      \<and> batch_parse_documents_result s (length (tasks s0)) (length fs) = Some rs
    \<longrightarrow> length rs = length fs
      \<and> (\<forall>i<length fs. \<exists>request outcome.
             tasks s ! (length (tasks s0) + i)
               = (SafeParseDocument (fs ! i) options, Finished request outcome)
           \<and> rs ! i = (case parse_document_result (fs ! i) outcome of
                         Inl e \<Rightarrow> PNone | Inr result \<Rightarrow> result)))
   \<and> (0 < semaphore (client s0) \<and> length outcomes = length fs
    \<longrightarrow> (\<exists>s'. run (Start (batch_calls fs options) # one_by_one (length (tasks s0)) outcomes) s0
                 = Some s'
             \<and> batch_parse_documents_result s' (length (tasks s0)) (length fs)
                 = Some (map (\<lambda>(f, outcome). case parse_document_result f outcome of
                                                Inl e \<Rightarrow> PNone | Inr result \<Rightarrow> result)
                           (zip fs outcomes))))"
  using batch_result_aligned [of fs options events s0 s rs]
    batch_returns [of s0 outcomes fs options]
  by blast

theorem batch_parse_documents_aligned_witness:
  "(case run [Start (batch_calls [''a.pdf'', ''b.pdf'', ''c.pdf''] None),
              Send 0, Send 1,
              Complete 1 (Responded \<lparr>status_code = 500, response_text = ''boom'',
                                       response_json = None\<rparr>),
              Send 2,
              Complete 2 (Responded \<lparr>status_code = 200, response_text = ''[3]'',
                                       response_json = Some (PList [PInt 3])\<rparr>),
              Complete 0 (Responded \<lparr>status_code = 200, response_text = ''{}'',
                                       response_json = Some (PDict [])\<rparr>)]
             (fresh \<lparr>base_url = ''http://xparser'', timeout = 300, semaphore = 2\<rparr>) of
      None \<Rightarrow> False
    | Some s \<Rightarrow>
        batch_parse_documents_result s 0 3
          = Some [PDict [], PNone, PList [PInt 3]]
        \<and> length [PDict [], PNone, PList [PInt 3]]
          = length [''a.pdf'', ''b.pdf'', ''c.pdf''])
   \<and> (case run (Start (batch_calls [''a.pdf'', ''b.pdf'', ''c.pdf''] None)
                 # one_by_one 0
                     [Responded \<lparr>status_code = 200, response_text = ''{}'',
                                  response_json = Some (PDict [])\<rparr>,
                      Responded \<lparr>status_code = 500, response_text = ''boom'',
                                  response_json = None\<rparr>,
                      Responded \<lparr>status_code = 200, response_text = ''[3]'',
                                  response_json = Some (PList [PInt 3])\<rparr>])
             (fresh \<lparr>base_url = ''http://xparser'', timeout = 300, semaphore = 2\<rparr>) of
      None \<Rightarrow> False
    | Some s \<Rightarrow>
        batch_parse_documents_result s 0 3
          = Some [PDict [], PNone, PList [PInt 3]])"
proof -
  let ?self = "\<lparr>base_url = ''http://xparser'', timeout = 300, semaphore = 2\<rparr>"
  let ?fs = "[''a.pdf'', ''b.pdf'', ''c.pdf'']"
  let ?a = "Responded \<lparr>status_code = 200, response_text = ''{}'',
                        response_json = Some (PDict [])\<rparr>"
  let ?b = "Responded \<lparr>status_code = 500, response_text = ''boom'', response_json = None\<rparr>"
  let ?c = "Responded \<lparr>status_code = 200, response_text = ''[3]'',
                        response_json = Some (PList [PInt 3])\<rparr>"
  let ?events = "[Send 0, Send 1, Complete 1 ?b, Send 2, Complete 2 ?c, Complete 0 ?a]"
  let ?rs = "[PDict [], PNone, PList [PInt 3]]"
  have "\<exists>s. run (Start (batch_calls ?fs None) # ?events) (fresh ?self) = Some s
            \<and> batch_parse_documents_result s 0 3 = Some ?rs"
    by (simp add: fresh_def batch_calls_def batch_parse_documents_result_def
        safe_parse_document_result_def parse_document_result_def raise_for_status_def)
  then obtain s where run: "run (Start (batch_calls ?fs None) # ?events) (fresh ?self) = Some s"
    and res: "batch_parse_documents_result s 0 3 = Some ?rs"
    by blast
  note aligned =
    batch_parse_documents_aligned [of ?fs None ?events "fresh ?self" s ?rs "[?a, ?b, ?c]"]
  have l0: "length (tasks (fresh ?self)) = 0"
    by (simp add: fresh_def)
  have l3: "length ?fs = 3"
    by simp
  have ran: "run (Start (batch_calls ?fs None) # ?events) (fresh ?self) = Some s
           \<and> batch_parse_documents_result s (length (tasks (fresh ?self))) (length ?fs) = Some ?rs"
    by (simp only: l0 l3 run res simp_thms)
  have pre: "0 < semaphore (client (fresh ?self)) \<and> length [?a, ?b, ?c] = length ?fs"
    by (simp add: fresh_def)
  from conjunct1 [OF aligned, THEN mp, OF ran] have len: "length ?rs = length ?fs"
    by (rule conjunct1)
  from conjunct2 [OF aligned, THEN mp, OF pre]
  obtain s' where run': "run (Start (batch_calls ?fs None)
                              # one_by_one (length (tasks (fresh ?self))) [?a, ?b, ?c])
                           (fresh ?self) = Some s'"
    and res': "batch_parse_documents_result s' (length (tasks (fresh ?self))) (length ?fs)
                 = Some (map (\<lambda>(f, outcome). case parse_document_result f outcome of
                                                Inl e \<Rightarrow> PNone | Inr result \<Rightarrow> result)
                           (zip ?fs [?a, ?b, ?c]))"
    by blast
  from run' have run0: "run (Start (batch_calls ?fs None) # one_by_one 0 [?a, ?b, ?c])
                          (fresh ?self) = Some s'"
    by (simp only: l0)
  have "map (\<lambda>(f, outcome). case parse_document_result f outcome of
                              Inl e \<Rightarrow> PNone | Inr result \<Rightarrow> result)
          (zip ?fs [?a, ?b, ?c]) = ?rs"
    by (simp add: parse_document_result_def raise_for_status_def)
  with res' have res0: "batch_parse_documents_result s' 0 3 = Some ?rs"
    by (simp only: l0 l3)
  show ?thesis
    by (simp only: run run0 res res0 len option.case simp_thms)
qed

end
